theory Spec2Isabelle
  imports Main "HOL-Library.Word"
begin

section \<open>Errors and the cause chain\<close>

text \<open>
  A Go \<open>error\<close> is an interface value: it has a dynamic type, an \<open>Error()\<close> text and,
  when it wraps a cause, an \<open>Unwrap()\<close> result. The error types that the controller
  dispatches on live in the packages \<open>internal/errors\<close> and \<open>internal/requeue\<close>; their
  \<open>Error()\<close> methods are not part of the sources at hand, so the text of every node is
  carried as data and nothing is assumed about how a wrapper derives it from its cause.
\<close>

type_synonym duration = "64 word"

datatype errtype =
    ProcessCRDError
  | ReconcileGraphError
  | ReconcileCRDError
  | ReconcileMicroControllerError
  | RequeueNeededAfter duration
  | RequeueNeeded
  | NoRequeue
  | OtherError

datatype err = Error (etype: errtype) (Error_text: string) (Unwrap: "err option")

text \<open>
  \<open>errors.As(err, &target)\<close> walks the chain from the outermost error inwards and stops
  at the first node whose dynamic type is the target's; on \<open>nil\<close> it reports no match.
  The target type is given here as a predicate on \<open>errtype\<close>.
\<close>

fun As_chain :: "(errtype \<Rightarrow> bool) \<Rightarrow> err \<Rightarrow> err option" where
  "As_chain P (Error t m u) =
     (if P t then Some (Error t m u)
      else (case u of None \<Rightarrow> None | Some c \<Rightarrow> As_chain P c))"

definition errors_As :: "(errtype \<Rightarrow> bool) \<Rightarrow> err option \<Rightarrow> err option" where
  "errors_As P e = (case e of None \<Rightarrow> None | Some x \<Rightarrow> As_chain P x)"

definition isRequeueNeededAfter :: "errtype \<Rightarrow> bool" where
  "isRequeueNeededAfter t = (case t of RequeueNeededAfter d \<Rightarrow> True | _ \<Rightarrow> False)"

definition Duration :: "err \<Rightarrow> duration" where
  "Duration e = (case etype e of RequeueNeededAfter d \<Rightarrow> d | _ \<Rightarrow> 0)"

text \<open>The nodes of a cause chain, outermost first; used to state properties only.\<close>

fun causes :: "err \<Rightarrow> err list" where
  "causes (Error t m u) =
     Error t m u # (case u of None \<Rightarrow> [] | Some c \<Rightarrow> causes c)"

section \<open>The requeue classifier\<close>

text \<open>\<open>ctrl.Result\<close> of controller-runtime; its zero value is the empty result.\<close>

record Result =
  Requeue :: bool
  RequeueAfter :: duration

definition Result_empty :: Result where
  "Result_empty = \<lparr>Requeue = False, RequeueAfter = 0\<rparr>"

text \<open>
  \<open>handleReconcileError\<close>: the three \<open>errors.As\<close> tests in the order of the source. The
  log calls have no effect on the returned pair and are left out.
\<close>

definition handleReconcileError :: "err option \<Rightarrow> Result \<times> err option" where
  "handleReconcileError e =
     (case errors_As isRequeueNeededAfter e of
        Some requeueNeededAfter \<Rightarrow>
          (Result_empty\<lparr>RequeueAfter := Duration requeueNeededAfter\<rparr>, None)
      | None \<Rightarrow>
     (case errors_As (\<lambda>t. t = RequeueNeeded) e of
        Some requeueNeeded \<Rightarrow> (Result_empty\<lparr>Requeue := True\<rparr>, None)
      | None \<Rightarrow>
     (case errors_As (\<lambda>t. t = NoRequeue) e of
        Some noRequeue \<Rightarrow> (Result_empty, None)
      | None \<Rightarrow> (Result_empty, e))))"

section \<open>Conditions and the resource group status\<close>

datatype ConditionStatus = ConditionTrue | ConditionFalse | ConditionUnknown

text \<open>
  The three condition types of \<open>api/v1alpha1\<close>. The specification calls them Ready,
  GraphVerified and TypeSynced.
\<close>

datatype ConditionType = ReconcilerReady | GraphVerified | CustomResourceDefinitionSynced

text \<open>
  A condition. The \<open>LastTransitionTime\<close> stamp is wall-clock time and is not modelled.
\<close>

record Condition =
  CType :: ConditionType
  Status :: ConditionStatus
  Reason :: string
  Message :: string

text \<open>
  Modelled from the spec: the constructors of package \<open>internal/condition\<close> are not
  among the sources. A condition is \<open>{Type, Status, Reason, Message}\<close>; each constructor
  fixes the type and takes status, reason and message in this order (the source passes its
  local variable \<open>reason\<close> in the second position, and the table of section 4.4 lists
  "Faulty Graph" and "CRD not-synced" as reasons).
\<close>

definition NewCondition ::
  "ConditionType \<Rightarrow> ConditionStatus \<Rightarrow> string \<Rightarrow> string \<Rightarrow> Condition" where
  "NewCondition t status reason message =
     \<lparr>CType = t, Status = status, Reason = reason, Message = message\<rparr>"

definition NewReconcilerReadyCondition :: "ConditionStatus \<Rightarrow> string \<Rightarrow> string \<Rightarrow> Condition" where
  "NewReconcilerReadyCondition = NewCondition ReconcilerReady"

definition NewGraphVerifiedCondition :: "ConditionStatus \<Rightarrow> string \<Rightarrow> string \<Rightarrow> Condition" where
  "NewGraphVerifiedCondition = NewCondition GraphVerified"

definition NewCustomResourceDefinitionSyncedCondition ::
  "ConditionStatus \<Rightarrow> string \<Rightarrow> string \<Rightarrow> Condition" where
  "NewCustomResourceDefinitionSyncedCondition = NewCondition CustomResourceDefinitionSynced"

text \<open>
  Modelled from the spec: \<open>condition.SetCondition\<close> is not among the sources. The update
  is an upsert keyed by the condition type that leaves the other types untouched: the
  first condition of the same type is replaced, and a condition of a new type is appended.
\<close>

fun SetCondition :: "Condition list \<Rightarrow> Condition \<Rightarrow> Condition list" where
  "SetCondition [] c = [c]"
| "SetCondition (x # xs) c =
     (if CType x = CType c then c # xs else x # SetCondition xs c)"

text \<open>Reading the condition of a type: the first one in the list.\<close>

definition GetCondition :: "Condition list \<Rightarrow> ConditionType \<Rightarrow> Condition option" where
  "GetCondition cs t = find (\<lambda>c. CType c = t) cs"

record ResourceGroupStatus =
  State :: string
  TopoligicalOrder :: "string list"
  Conditions :: "Condition list"

text \<open>
  \<open>setResourceGroupStatus\<close> computes the status on a deep copy \<open>dc\<close> of the resource
  group and hands it to the API client as one patch. The model takes the status of the
  resource group as read and returns the status of \<open>dc\<close> that is patched; the patch
  itself belongs to the client. The four \<open>errors.As\<close> blocks are independent
  \<open>if\<close> statements, executed one after the other; the body of each is given a
  name of its own below.
\<close>

definition onProcessCRDError :: "err \<Rightarrow> Condition list \<Rightarrow> Condition list" where
  "onProcessCRDError reconcileErr cs =
     (let cs = SetCondition cs (NewGraphVerifiedCondition ConditionUnknown
                 (''error parsing schema: '' @ Error_text reconcileErr)
                 ''Directed Acyclic Graph is synced'');
          cs = SetCondition cs (NewCustomResourceDefinitionSyncedCondition ConditionFalse
                 (''error parsing schema: '' @ Error_text reconcileErr)
                 ''Custom Resource Definition is synced'');
          reason = ''Faulty Graph''
      in SetCondition cs (NewReconcilerReadyCondition ConditionUnknown reason
                 ''micro controller is ready''))"

definition onReconcileGraphError :: "err \<Rightarrow> Condition list \<Rightarrow> Condition list" where
  "onReconcileGraphError reconcileErr cs =
     (let cs = SetCondition cs (NewGraphVerifiedCondition ConditionFalse
                 (Error_text reconcileErr) ''Directed Acyclic Graph is synced'');
          reason = ''Faulty Graph'';
          cs = SetCondition cs (NewReconcilerReadyCondition ConditionUnknown reason
                 ''micro controller is ready'')
      in SetCondition cs (NewCustomResourceDefinitionSyncedCondition ConditionUnknown reason
                 ''Custom Resource Definition is synced''))"

definition onReconcileCRDError :: "err \<Rightarrow> Condition list \<Rightarrow> Condition list" where
  "onReconcileCRDError reconcileErr cs =
     (let cs = SetCondition cs (NewGraphVerifiedCondition ConditionTrue
                 [] ''Directed Acyclic Graph is synced'');
          cs = SetCondition cs (NewCustomResourceDefinitionSyncedCondition ConditionFalse
                 (Error_text reconcileErr) ''Custom Resource Definition is synced'');
          reason = ''CRD not-synced''
      in SetCondition cs (NewReconcilerReadyCondition ConditionUnknown reason
                 ''micro controller is ready''))"

definition onReconcileMicroControllerError :: "err \<Rightarrow> Condition list \<Rightarrow> Condition list" where
  "onReconcileMicroControllerError reconcileErr cs =
     (let cs = SetCondition cs (NewGraphVerifiedCondition ConditionTrue
                 [] ''Directed Acyclic Graph is synced'');
          cs = SetCondition cs (NewCustomResourceDefinitionSyncedCondition ConditionTrue
                 [] ''Custom Resource Definition is synced'')
      in SetCondition cs (NewReconcilerReadyCondition ConditionFalse
                 (Error_text reconcileErr) ''micro controller is ready''))"

definition setResourceGroupStatus ::
  "ResourceGroupStatus \<Rightarrow> string list \<Rightarrow> err option \<Rightarrow> ResourceGroupStatus" where
  "setResourceGroupStatus status topologicalOrder reconcileErr =
     (let dc = status;
          dc = dc\<lparr>Conditions := SetCondition (Conditions dc)
                 (NewReconcilerReadyCondition ConditionTrue [] ''micro controller is ready'')\<rparr>;
          dc = dc\<lparr>Conditions := SetCondition (Conditions dc)
                 (NewGraphVerifiedCondition ConditionTrue [] ''Directed Acyclic Graph is synced'')\<rparr>;
          dc = dc\<lparr>Conditions := SetCondition (Conditions dc)
                 (NewCustomResourceDefinitionSyncedCondition ConditionTrue []
                    ''Custom Resource Definition is synced'')\<rparr>;
          dc = dc\<lparr>State := ''ACTIVE''\<rparr>;
          dc = dc\<lparr>TopoligicalOrder := topologicalOrder\<rparr>
      in case reconcileErr of
           None \<Rightarrow> dc
         | Some e \<Rightarrow>
             (let cs = Conditions dc;
                  cs = (if errors_As (\<lambda>t. t = ProcessCRDError) reconcileErr \<noteq> None
                        then onProcessCRDError e cs else cs);
                  cs = (if errors_As (\<lambda>t. t = ReconcileGraphError) reconcileErr \<noteq> None
                        then onReconcileGraphError e cs else cs);
                  cs = (if errors_As (\<lambda>t. t = ReconcileCRDError) reconcileErr \<noteq> None
                        then onReconcileCRDError e cs else cs);
                  cs = (if errors_As (\<lambda>t. t = ReconcileMicroControllerError) reconcileErr \<noteq> None
                        then onReconcileMicroControllerError e cs else cs)
              in dc\<lparr>Conditions := cs, State := ''INACTIVE''\<rparr>))"

section \<open>Schemas, documents and expression fields\<close>

text \<open>
  A schema node, \<open>spec.Schema\<close> of kube-openapi, with the fields that the walk reads:
  \<open>Type\<close>, \<open>Properties\<close> (a map from names to schema values), \<open>Items\<close> (a pointer
  to a \<open>SchemaOrArray\<close>, whose \<open>Schema\<close> is again a pointer), \<open>AdditionalProperties\<close>
  (a pointer to a \<open>SchemaOrBool\<close>) and \<open>OneOf\<close>. A nil pointer is \<open>None\<close>; a nil
  map and an empty map are both the empty list, since the walk only looks keys up. The
  schema is a tree: no node is reachable along two different paths.
\<close>

datatype schema =
  Schema (Type: "string list")
         (Properties: "(string \<times> schema) list")
         (Items: "schemaOrArray option")
         (AdditionalProperties: "schemaOrBool option")
         (OneOf: "schema list")
and schemaOrArray =
  SchemaOrArray (SchemaOrArray_Schema: "schema option") (Schemas: "schema list")
and schemaOrBool =
  SchemaOrBool (Allows: bool) (SchemaOrBool_Schema: "schema option")

text \<open>
  A document node is an \<open>interface{}\<close> value; the walk switches on its dynamic type.
  The fields of a map are listed in the order in which the \<open>range\<close> loop visits them
  (Go leaves this order open; the properties below hold for every order). \<open>VOther\<close>
  stands for nil and for every dynamic type that the source does not name.
\<close>

datatype val =
    VMap "(string \<times> val) list"
  | VSlice "val list"
  | VString string
  | VFloat64 "64 word"
  | VInt int
  | VInt64 "64 word"
  | VInt32 "32 word"
  | VBool bool
  | VOther

record ExpressionField =
  Path :: string
  Expressions :: "string list"
  ExpectedType :: string
  ExpectedSchema :: "schema option"
  OneShotCEL :: bool

text \<open>
  The errors that the walk builds with \<open>fmt.Errorf\<close>, one constructor for each message,
  carrying the path or field name that the message formats (the rendering of the offending
  value with \<open>%v\<close> or \<open>%T\<close> is dropped). \<open>IndexOutOfRange\<close> is the run-time panic of
  an index expression on an empty slice; \<open>MalformedExpression\<close> is the error of the
  expression classifier.
\<close>

datatype parseError =
    SchemaIsNil string
  | NotSingleType "string list"
  | ExpectedObject string
  | SchemaNotFound string
  | ErrorGettingFieldSchema string parseError
  | ExpectedArray string
  | InvalidArraySchema string
  | ExpectedString string
  | ExpectedNumber string
  | ExpectedInteger string
  | ExpectedBoolean string
  | UnexpectedType string
  | MalformedExpression
  | IndexOutOfRange

type_synonym fields = "ExpressionField list"

section \<open>The expression classifier\<close>

text \<open>
  Modelled from the spec: \<open>extractExpressions\<close> and \<open>isOneShotExpression\<close> are called
  by the walk but are not among the sources. The classifier returns the substrings enclosed
  by the opening delimiter \<open>${\<close> and its matching closing \<open>}\<close>, in order, tracking
  the nesting depth so that a body may itself contain braces; an opening delimiter with no
  matching close is reported as an error. \<open>scan\<close> is the depth-counting state machine:
  depth \<open>0\<close> is outside of any expression, and \<open>body\<close> holds the current body reversed.
\<close>

fun scan :: "string \<Rightarrow> nat \<Rightarrow> string \<Rightarrow> string list \<Rightarrow> parseError + string list" where
  "scan [] depth body found = (if depth = 0 then Inr (rev found) else Inl MalformedExpression)"
| "scan [c] 0 body found = Inr (rev found)"
| "scan (c # c' # cs) 0 body found =
     (if c = CHR ''$'' \<and> c' = CHR ''{'' then scan cs 1 [] found
      else scan (c' # cs) 0 body found)"
| "scan (c # cs) (Suc d) body found =
     (if c = CHR ''{'' then scan cs (Suc (Suc d)) (c # body) found
      else if c = CHR ''}'' then
        (if d = 0 then scan cs 0 [] (rev body # found)
         else scan cs d (c # body) found)
      else scan cs (Suc d) (c # body) found)"

definition extractExpressions :: "string \<Rightarrow> parseError + string list" where
  "extractExpressions str = scan str 0 [] []"

text \<open>
  Modelled from the spec: a string is one-shot when the entire trimmed string is exactly
  one delimited span with nothing else around it. Trimming removes white space at both
  ends.
\<close>

definition isSpace :: "char \<Rightarrow> bool" where
  "isSpace c = (c \<in> set [CHR '' '', CHR 0x09, CHR 0x0A, CHR 0x0B, CHR 0x0C, CHR 0x0D])"

definition TrimSpace :: "string \<Rightarrow> string" where
  "TrimSpace s = rev (dropWhile isSpace (rev (dropWhile isSpace s)))"

definition isOneShotExpression :: "string \<Rightarrow> parseError + bool" where
  "isOneShotExpression str =
     (case extractExpressions (TrimSpace str) of
        Inl e \<Rightarrow> Inl e
      | Inr expressions \<Rightarrow>
          Inr (case expressions of
                 [e] \<Rightarrow> TrimSpace str = ''${'' @ e @ ''}''
               | _ \<Rightarrow> False))"

section \<open>Library functions used by the walk\<close>

text \<open>
  \<open>strings.Trim(s, cutset)\<close> removes from both ends of \<open>s\<close> every leading and trailing
  character that occurs in \<open>cutset\<close>. \<open>itoa\<close> is the decimal rendering that
  \<open>fmt.Sprintf\<close> gives an index with \<open>%d\<close>.
\<close>

definition Trim :: "string \<Rightarrow> string \<Rightarrow> string" where
  "Trim s cutset =
     rev (dropWhile (\<lambda>c. c \<in> set cutset) (rev (dropWhile (\<lambda>c. c \<in> set cutset) s)))"

fun itoa :: "nat \<Rightarrow> string" where
  "itoa n = (if n < 10 then [''0123456789'' ! n]
             else itoa (n div 10) @ [''0123456789'' ! (n mod 10)])"

declare itoa.simps [simp del]

section \<open>The schema walk\<close>

text \<open>
  Field updates of a schema node. The only assignment in the source is
  \<open>schema.Type = ...\<close>; the other updates record, in the parent, the state of a node
  that the parent points to.
\<close>

definition setType :: "schema \<Rightarrow> string list \<Rightarrow> schema" where
  "setType s t = Schema t (Properties s) (Items s) (AdditionalProperties s) (OneOf s)"

definition setProperties :: "schema \<Rightarrow> (string \<times> schema) list \<Rightarrow> schema" where
  "setProperties s ps = Schema (Type s) ps (Items s) (AdditionalProperties s) (OneOf s)"

definition itemsSchema :: "schema \<Rightarrow> schema option" where
  "itemsSchema s = (case Items s of None \<Rightarrow> None | Some it \<Rightarrow> SchemaOrArray_Schema it)"

definition setItemsSchema :: "schema \<Rightarrow> schema \<Rightarrow> schema" where
  "setItemsSchema s i =
     Schema (Type s) (Properties s)
       (map_option (\<lambda>it. SchemaOrArray (Some i) (Schemas it)) (Items s))
       (AdditionalProperties s) (OneOf s)"

definition setAdditionalSchema :: "schema \<Rightarrow> schema \<Rightarrow> schema" where
  "setAdditionalSchema s a =
     Schema (Type s) (Properties s) (Items s)
       (map_option (\<lambda>ap. SchemaOrBool (Allows ap) (Some a)) (AdditionalProperties s)) (OneOf s)"

fun setProperty :: "string \<Rightarrow> schema \<Rightarrow> (string \<times> schema) list \<Rightarrow> (string \<times> schema) list" where
  "setProperty k v [] = []"
| "setProperty k v ((k', v') # ps) =
     (if k' = k then (k, v) # ps else (k', v') # setProperty k v ps)"

text \<open>\<open>schema.AdditionalProperties != nil && schema.AdditionalProperties.Allows\<close>.\<close>

definition allowsAdditional :: "schema \<Rightarrow> bool" where
  "allowsAdditional s = (case AdditionalProperties s of None \<Rightarrow> False | Some ap \<Rightarrow> Allows ap)"

text \<open>
  \<open>getFieldSchema\<close> returns a pointer. It points to a fresh copy of the property value
  (\<open>&fieldSchema\<close>, where \<open>fieldSchema\<close> is a local variable), to the node behind
  \<open>AdditionalProperties.Schema\<close>, or to a fresh empty schema. The model returns the
  schema read through the pointer together with what the pointer designates.
\<close>

datatype target = PropertyCopy | AdditionalSchema | Fresh

definition getFieldSchema :: "schema \<Rightarrow> string \<Rightarrow> parseError + (target \<times> schema)" where
  "getFieldSchema s field =
     (case map_of (Properties s) field of
        Some fieldSchema \<Rightarrow> Inr (PropertyCopy, fieldSchema)
      | None \<Rightarrow>
          (case AdditionalProperties s of
             Some ap \<Rightarrow>
               (case SchemaOrBool_Schema ap of
                  Some a \<Rightarrow> Inr (AdditionalSchema, a)
                | None \<Rightarrow>
                    if Allows ap then Inr (Fresh, Schema [] [] None None [])
                    else Inl (SchemaNotFound field))
           | None \<Rightarrow> Inl (SchemaNotFound field)))"

text \<open>
  The state of the parent after the walk of a field has returned. An assignment to the
  \<open>Type\<close> of a property copy is lost with the copy, but the copy shares its maps and
  pointers with the property value, so everything below it is kept. The node behind
  \<open>AdditionalProperties.Schema\<close> is shared as a whole; a fresh schema is dropped.
\<close>

definition writeBack :: "schema \<Rightarrow> string \<Rightarrow> target \<Rightarrow> schema \<Rightarrow> schema \<Rightarrow> schema" where
  "writeBack s field tg before after =
     (case tg of
        PropertyCopy \<Rightarrow>
          setProperties s (setProperty field (setType after (Type before)) (Properties s))
      | AdditionalSchema \<Rightarrow> setAdditionalSchema s after
      | Fresh \<Rightarrow> s)"

text \<open>
  The head of \<open>parseResource\<close>: a schema that does not declare exactly one type takes the
  type of its first \<open>oneOf\<close> alternative, by assignment to \<open>schema.Type\<close>, and fails
  when it has no alternative.
\<close>

definition resolveOneOf :: "schema \<Rightarrow> parseError + schema" where
  "resolveOneOf s =
     (if length (Type s) \<noteq> 1 then
        (if length (OneOf s) > 0 then
           (case Type (OneOf s ! 0) of
              [] \<Rightarrow> Inl IndexOutOfRange
            | t # ts \<Rightarrow> Inr (setType s [t]))
         else Inl (NotSingleType (Type s)))
      else Inr s)"

text \<open>The expected type; \<open>Type s ! 0\<close> is read only once \<open>Type s\<close> has one element.\<close>

definition expectedTypeOf :: "schema \<Rightarrow> string" where
  "expectedTypeOf s =
     (let expectedType = Type s ! 0
      in if expectedType = [] \<and> allowsAdditional s then ''any'' else expectedType)"

text \<open>
  The item schema of an array node: the three branches of the source, with their
  conditions as written. \<open>Synthesized\<close> marks the object schema built from the
  properties of the parent, whose property map it shares.
\<close>

datatype itemTarget = ItemsSchema | Synthesized

definition arrayItemSchema :: "schema \<Rightarrow> string \<Rightarrow> parseError + (itemTarget \<times> schema)" where
  "arrayItemSchema s path =
     (if itemsSchema s \<noteq> None then
        Inr (ItemsSchema, the (itemsSchema s))
      else if itemsSchema s \<noteq> None \<and> length (Properties (the (itemsSchema s))) > 0 then
        Inr (Synthesized, Schema [''object''] (Properties s) None None [])
      else Inl (InvalidArraySchema path))"

definition writeBackItems :: "schema \<Rightarrow> itemTarget \<Rightarrow> schema \<Rightarrow> schema" where
  "writeBackItems s tg after =
     (case tg of
        ItemsSchema \<Rightarrow> setItemsSchema s after
      | Synthesized \<Rightarrow> setProperties s (Properties after))"

text \<open>The \<open>string\<close> case and the \<open>default\<close> case of the type switch.\<close>

definition stringLeaf :: "string \<Rightarrow> schema \<Rightarrow> string \<Rightarrow> string \<Rightarrow> parseError + fields" where
  "stringLeaf field s expectedType path =
     (case isOneShotExpression field of
        Inl err \<Rightarrow> Inl err
      | Inr ok \<Rightarrow>
          if ok then
            Inr [\<lparr>Path = path, Expressions = [Trim field ''${}''],
                  ExpectedType = expectedType, ExpectedSchema = Some s, OneShotCEL = True\<rparr>]
          else if expectedType \<noteq> ''string'' \<and> expectedType \<noteq> ''any'' then
            Inl (ExpectedString path)
          else
            (case extractExpressions field of
               Inl err \<Rightarrow> Inl err
             | Inr expressions \<Rightarrow>
                 if length expressions > 0 then
                   Inr [\<lparr>Path = path, Expressions = expressions,
                         ExpectedType = expectedType, ExpectedSchema = None,
                         OneShotCEL = False\<rparr>]
                 else Inr []))"

definition scalarLeaf :: "val \<Rightarrow> string \<Rightarrow> string \<Rightarrow> parseError + fields" where
  "scalarLeaf field expectedType path =
     (if expectedType = ''any'' then Inr []
      else if expectedType = ''number'' then
        (case field of VFloat64 x \<Rightarrow> Inr [] | _ \<Rightarrow> Inl (ExpectedNumber path))
      else if expectedType = ''integer'' then
        (case field of VInt x \<Rightarrow> Inr [] | VInt64 x \<Rightarrow> Inr [] | VInt32 x \<Rightarrow> Inr []
         | _ \<Rightarrow> Inl (ExpectedInteger path))
      else if expectedType = ''boolean'' then
        (case field of VBool x \<Rightarrow> Inr [] | _ \<Rightarrow> Inl (ExpectedBoolean path))
      else Inl (UnexpectedType path))"

text \<open>
  \<open>parseResource\<close> with its two loops, over the fields of a map and over the items of a
  slice. Each function returns the result together with the state of the schema node that
  it was given, after the call; the loops pass that state on, since one node can be walked
  for several fields or items. The nil test on the schema sits in \<open>ParseResource\<close>
  below, the only caller that can pass a nil pointer.
\<close>

function parseResource :: "val \<Rightarrow> schema \<Rightarrow> string \<Rightarrow> (parseError + fields) \<times> schema"
  and parseFields :: "(string \<times> val) list \<Rightarrow> schema \<Rightarrow> string \<Rightarrow> fields \<Rightarrow> (parseError + fields) \<times> schema"
  and parseItems :: "val list \<Rightarrow> nat \<Rightarrow> schema \<Rightarrow> string \<Rightarrow> fields \<Rightarrow> (parseError + fields) \<times> schema"
where
  "parseResource resource schema0 path =
     (case resolveOneOf schema0 of
        Inl err \<Rightarrow> (Inl err, schema0)
      | Inr schema \<Rightarrow>
          (let expectedType = expectedTypeOf schema in
           case resource of
             VMap field \<Rightarrow>
               if expectedType \<noteq> ''object'' \<and> \<not> allowsAdditional schema
               then (Inl (ExpectedObject path), schema)
               else parseFields field schema path []
           | VSlice field \<Rightarrow>
               if expectedType \<noteq> ''array'' then (Inl (ExpectedArray path), schema)
               else
                 (case arrayItemSchema schema path of
                    Inl err \<Rightarrow> (Inl err, schema)
                  | Inr found \<Rightarrow>
                      (let r = parseItems field 0 (snd found) path []
                       in (fst r, writeBackItems schema (fst found) (snd r))))
           | VString field \<Rightarrow> (stringLeaf field schema expectedType path, schema)
           | _ \<Rightarrow> (scalarLeaf resource expectedType path, schema)))"
| "parseFields [] schema path expressionsFields = (Inr expressionsFields, schema)"
| "parseFields ((field, value) # rest) schema path expressionsFields =
     (case getFieldSchema schema field of
        Inl err \<Rightarrow> (Inl (ErrorGettingFieldSchema (path @ ''.'' @ field) err), schema)
      | Inr found \<Rightarrow>
          (let r = parseResource value (snd found) (path @ ''.'' @ field);
               schema' = writeBack schema field (fst found) (snd found) (snd r)
           in case fst r of
                Inl err \<Rightarrow> (Inl err, schema')
              | Inr fieldExpressions \<Rightarrow>
                  parseFields rest schema' path (expressionsFields @ fieldExpressions)))"
| "parseItems [] i itemSchema path expressionsFields = (Inr expressionsFields, itemSchema)"
| "parseItems (item # rest) i itemSchema path expressionsFields =
     (let r = parseResource item itemSchema (path @ ''['' @ itoa i @ '']'')
      in case fst r of
           Inl err \<Rightarrow> (Inl err, snd r)
         | Inr itemExpressions \<Rightarrow>
             parseItems rest (Suc i) (snd r) path (expressionsFields @ itemExpressions))"
  by pat_completeness auto
termination
  by (relation "measure (\<lambda>x. case x of
        Inl (resource, _) \<Rightarrow> size resource
      | Inr (Inl (kvs, _)) \<Rightarrow> size_list (size_prod (\<lambda>_. 0) size) kvs
      | Inr (Inr (items, _)) \<Rightarrow> size_list size items)") auto

declare parseResource.simps [simp del]

definition ParseResource ::
  "(string \<times> val) list \<Rightarrow> schema option \<Rightarrow> (parseError + fields) \<times> schema option" where
  "ParseResource resource resourceSchema =
     (case resourceSchema of
        None \<Rightarrow> (Inl (SchemaIsNil ''''), None)
      | Some s \<Rightarrow> (case parseResource (VMap resource) s '''' of (r, s') \<Rightarrow> (r, Some s')))"

section \<open>Notions used to state the properties\<close>

text \<open>Status, reason and message of the condition of a given type in a status.\<close>

definition StatusOf :: "ResourceGroupStatus \<Rightarrow> ConditionType \<Rightarrow> ConditionStatus option" where
  "StatusOf st t = map_option Status (GetCondition (Conditions st) t)"

definition ReasonOf :: "ResourceGroupStatus \<Rightarrow> ConditionType \<Rightarrow> string option" where
  "ReasonOf st t = map_option Reason (GetCondition (Conditions st) t)"

definition MessageOf :: "ResourceGroupStatus \<Rightarrow> ConditionType \<Rightarrow> string option" where
  "MessageOf st t = map_option Message (GetCondition (Conditions st) t)"

text \<open>Reason and message of the condition of a given type, as a pair.\<close>

definition Texts :: "ResourceGroupStatus \<Rightarrow> ConditionType \<Rightarrow> (string \<times> string) option" where
  "Texts st t = map_option (\<lambda>c. (Reason c, Message c)) (GetCondition (Conditions st) t)"

text \<open>
  The statuses of GraphVerified, TypeSynced (\<open>CustomResourceDefinitionSynced\<close>) and
  Ready (\<open>ReconcilerReady\<close>), in the column order of the table of section 4.4.
\<close>

definition Statuses :: "ResourceGroupStatus \<Rightarrow> ConditionStatus option \<times> ConditionStatus option \<times> ConditionStatus option" where
  "Statuses st = (StatusOf st GraphVerified, StatusOf st CustomResourceDefinitionSynced, StatusOf st ReconcilerReady)"

text \<open>
  The four phase-error kinds: SchemaError is \<open>ProcessCRDError\<close>, GraphError is
  \<open>ReconcileGraphError\<close>, SyncError is \<open>ReconcileCRDError\<close> and ReadinessError is
  \<open>ReconcileMicroControllerError\<close>. An error matches a kind when a node of that type
  occurs anywhere in its cause chain.
\<close>

definition phaseKinds :: "errtype set" where
  "phaseKinds = {ProcessCRDError, ReconcileGraphError, ReconcileCRDError,
                 ReconcileMicroControllerError}"

definition matchedKinds :: "err \<Rightarrow> errtype set" where
  "matchedKinds e = etype ` set (causes e) \<inter> phaseKinds"

text \<open>
  The dynamic types along the cause chain, outermost first, and the durations of the
  After markers among them.
\<close>

definition kinds :: "err \<Rightarrow> errtype list" where
  "kinds e = map etype (causes e)"

fun afterDurations :: "errtype list \<Rightarrow> duration list" where
  "afterDurations [] = []"
| "afterDurations (RequeueNeededAfter d # ks) = d # afterDurations ks"
| "afterDurations (k # ks) = afterDurations ks"

text \<open>The invariant of an expression field.\<close>

definition wellFormed :: "ExpressionField \<Rightarrow> bool" where
  "wellFormed f =
     ((OneShotCEL f \<longrightarrow> length (Expressions f) = 1) \<and>
      (\<not> OneShotCEL f \<longrightarrow> 1 \<le> length (Expressions f)))"

text \<open>
  A schema in which no node reachable by the walk takes the \<open>oneOf\<close> branch: every node
  declares exactly one type or has no alternatives.
\<close>

fun singleTyped :: "schema \<Rightarrow> bool" where
  "singleTyped (Schema t ps it ap oo) =
     ((length t = 1 \<or> oo = []) \<and>
      (\<forall>c \<in> snd ` set ps. singleTyped c) \<and>
      (case it of
         Some (SchemaOrArray (Some i) ss) \<Rightarrow> singleTyped i
       | _ \<Rightarrow> True) \<and>
      (case ap of
         Some (SchemaOrBool al (Some a)) \<Rightarrow> singleTyped a
       | _ \<Rightarrow> True))"

section \<open>Properties of the upsert and of the cause chain\<close>

lemma GetCondition_SetCondition:
  "GetCondition (SetCondition cs c) t =
     (if t = CType c then Some c else GetCondition cs t)"
  by (induction cs) (auto simp: GetCondition_def)

lemma As_chain_find: "As_chain P e = find (\<lambda>n. P (etype n)) (causes e)"
  by (induction P e rule: As_chain.induct) (auto split: option.splits)

lemma As_chain_None_iff: "As_chain P e = None \<longleftrightarrow> (\<forall>n \<in> set (causes e). \<not> P (etype n))"
  by (auto simp: As_chain_find find_None_iff)

lemma errors_As_kind_iff:
  "errors_As (\<lambda>t. t = k) (Some e) = None \<longleftrightarrow> k \<notin> etype ` set (causes e)"
  by (auto simp: errors_As_def As_chain_None_iff)

lemmas New_defs = NewCondition_def NewReconcilerReadyCondition_def
  NewGraphVerifiedCondition_def NewCustomResourceDefinitionSyncedCondition_def

lemmas on_defs = onProcessCRDError_def onReconcileGraphError_def onReconcileCRDError_def
  onReconcileMicroControllerError_def

lemma matched_single:
  assumes "matchedKinds e = {k}"
  shows "k \<in> phaseKinds" "\<And>k'. k' \<in> phaseKinds \<Longrightarrow>
     (errors_As (\<lambda>t. t = k') (Some e) \<noteq> None) = (k' = k)"
proof -
  show "k \<in> phaseKinds" using assms by (auto simp: matchedKinds_def)
  fix k' assume "k' \<in> phaseKinds"
  then have "(k' \<in> etype ` set (causes e)) = (k' \<in> matchedKinds e)"
    by (simp add: matchedKinds_def)
  then show "(errors_As (\<lambda>t. t = k') (Some e) \<noteq> None) = (k' = k)"
    using assms by (auto simp: errors_As_kind_iff)
qed

lemma as_kind:
  assumes "matchedKinds e = {k}"
  shows "(errors_As (\<lambda>t. t = ProcessCRDError) (Some e) \<noteq> None) = (ProcessCRDError = k)"
    "(errors_As (\<lambda>t. t = ReconcileGraphError) (Some e) \<noteq> None) = (ReconcileGraphError = k)"
    "(errors_As (\<lambda>t. t = ReconcileCRDError) (Some e) \<noteq> None) = (ReconcileCRDError = k)"
    "(errors_As (\<lambda>t. t = ReconcileMicroControllerError) (Some e) \<noteq> None) = (ReconcileMicroControllerError = k)"
  by (rule matched_single(2)[OF assms], simp add: phaseKinds_def)+

lemma status_one_kind:
  assumes "matchedKinds e = {k}"
  shows "Statuses (setResourceGroupStatus st topo (Some e)) =
     (if k = ProcessCRDError then (Some ConditionUnknown, Some ConditionFalse, Some ConditionUnknown)
      else if k = ReconcileGraphError then (Some ConditionFalse, Some ConditionUnknown, Some ConditionUnknown)
      else if k = ReconcileCRDError then (Some ConditionTrue, Some ConditionFalse, Some ConditionUnknown)
      else (Some ConditionTrue, Some ConditionTrue, Some ConditionFalse))"
proof -
  note m = matched_single[OF assms]
  have a: "(errors_As (\<lambda>t. t = ProcessCRDError) (Some e) \<noteq> None) = (ProcessCRDError = k)"
    "(errors_As (\<lambda>t. t = ReconcileGraphError) (Some e) \<noteq> None) = (ReconcileGraphError = k)"
    "(errors_As (\<lambda>t. t = ReconcileCRDError) (Some e) \<noteq> None) = (ReconcileCRDError = k)"
    "(errors_As (\<lambda>t. t = ReconcileMicroControllerError) (Some e) \<noteq> None) = (ReconcileMicroControllerError = k)"
    by (rule m(2), simp add: phaseKinds_def)+
  from m(1) consider "k = ProcessCRDError" | "k = ReconcileGraphError" | "k = ReconcileCRDError"
    | "k = ReconcileMicroControllerError" by (auto simp: phaseKinds_def)
  then show ?thesis
    by cases (simp_all add: a setResourceGroupStatus_def Statuses_def StatusOf_def on_defs
        GetCondition_SetCondition New_defs Let_def del: not_None_eq)
qed

lemma As_after_Nil:
  "afterDurations (kinds e) = [] \<Longrightarrow> As_chain isRequeueNeededAfter e = None"
  by (induction e rule: causes.induct)
     (auto simp: kinds_def isRequeueNeededAfter_def split: errtype.splits option.splits)

lemma As_after_Cons:
  "afterDurations (kinds e) = d # ds \<Longrightarrow>
     \<exists>m. As_chain isRequeueNeededAfter e = Some m \<and> Duration m = d"
  by (induction e rule: causes.induct)
     (auto simp: kinds_def isRequeueNeededAfter_def Duration_def split: errtype.splits option.splits)

lemma As_kind_chain:
  "(As_chain (\<lambda>t. t = k) e = None) = (k \<notin> set (kinds e))"
  by (auto simp: As_chain_None_iff kinds_def)

section \<open>The condition state machine: claims\<close>

text \<open>
  C5. Called with a nil reconcile error, \<open>setResourceGroupStatus\<close> derives a status in
  which the three conditions Ready, GraphVerified and TypeSynced have status True, the
  state is Active and the topological order is the one passed in.
\<close>

theorem setResourceGroupStatus_nil:
  "StatusOf (setResourceGroupStatus st topo None) ReconcilerReady = Some ConditionTrue \<and>
   StatusOf (setResourceGroupStatus st topo None) GraphVerified = Some ConditionTrue \<and>
   StatusOf (setResourceGroupStatus st topo None) CustomResourceDefinitionSynced = Some ConditionTrue \<and>
   State (setResourceGroupStatus st topo None) = ''ACTIVE'' \<and>
   TopoligicalOrder (setResourceGroupStatus st topo None) = topo"
  by (simp add: setResourceGroupStatus_def StatusOf_def GetCondition_SetCondition New_defs)

text \<open>
  C9. A non-nil reconcile error that matches none of the four phase-error kinds still sets
  the state to Inactive; the three conditions keep the baseline status True and the
  topological order passed in is recorded.
\<close>

theorem setResourceGroupStatus_unmatched:
  assumes "matchedKinds e = {}"
  shows "State (setResourceGroupStatus st topo (Some e)) = ''INACTIVE'' \<and>
   StatusOf (setResourceGroupStatus st topo (Some e)) ReconcilerReady = Some ConditionTrue \<and>
   StatusOf (setResourceGroupStatus st topo (Some e)) GraphVerified = Some ConditionTrue \<and>
   StatusOf (setResourceGroupStatus st topo (Some e)) CustomResourceDefinitionSynced = Some ConditionTrue \<and>
   TopoligicalOrder (setResourceGroupStatus st topo (Some e)) = topo"
proof -
  from assms have "\<forall>k \<in> phaseKinds. k \<notin> etype ` set (causes e)"
    by (auto simp: matchedKinds_def)
  then have "errors_As (\<lambda>t. t = ProcessCRDError) (Some e) = None"
    "errors_As (\<lambda>t. t = ReconcileGraphError) (Some e) = None"
    "errors_As (\<lambda>t. t = ReconcileCRDError) (Some e) = None"
    "errors_As (\<lambda>t. t = ReconcileMicroControllerError) (Some e) = None"
    by (simp_all add: errors_As_kind_iff phaseKinds_def)
  then show ?thesis
    by (simp add: setResourceGroupStatus_def StatusOf_def GetCondition_SetCondition New_defs)
qed

theorem setResourceGroupStatus_unmatched_witness:
  "matchedKinds (Error OtherError ''timeout'' (Some (Error RequeueNeeded ''again'' None))) = {} \<and>
   State (setResourceGroupStatus \<lparr>State = ''ACTIVE'', TopoligicalOrder = [], Conditions = []\<rparr>
      [''vpc'', ''subnet'']
      (Some (Error OtherError ''timeout'' (Some (Error RequeueNeeded ''again'' None))))) = ''INACTIVE''"
  using setResourceGroupStatus_unmatched [of "Error OtherError ''timeout'' (Some (Error RequeueNeeded ''again'' None))"
     "\<lparr>State = ''ACTIVE'', TopoligicalOrder = [], Conditions = []\<rparr>" "[''vpc'', ''subnet'']"]
  by (simp add: matchedKinds_def phaseKinds_def)

text \<open>
  C1. For a reconcile error that matches exactly one of the four phase-error kinds the
  derived statuses are those of the table of section 4.4 (columns GraphVerified,
  TypeSynced, Ready): SchemaError gives Unknown, False, Unknown; GraphError gives False,
  Unknown, Unknown; SyncError gives True, False, Unknown; ReadinessError gives True, True,
  False. In each of the four cases the state is Inactive.
\<close>

theorem status_table:
  "(matchedKinds e = {ProcessCRDError} \<longrightarrow>
      Statuses (setResourceGroupStatus st topo (Some e)) =
        (Some ConditionUnknown, Some ConditionFalse, Some ConditionUnknown) \<and>
      State (setResourceGroupStatus st topo (Some e)) = ''INACTIVE'') \<and>
   (matchedKinds e = {ReconcileGraphError} \<longrightarrow>
      Statuses (setResourceGroupStatus st topo (Some e)) =
        (Some ConditionFalse, Some ConditionUnknown, Some ConditionUnknown) \<and>
      State (setResourceGroupStatus st topo (Some e)) = ''INACTIVE'') \<and>
   (matchedKinds e = {ReconcileCRDError} \<longrightarrow>
      Statuses (setResourceGroupStatus st topo (Some e)) =
        (Some ConditionTrue, Some ConditionFalse, Some ConditionUnknown) \<and>
      State (setResourceGroupStatus st topo (Some e)) = ''INACTIVE'') \<and>
   (matchedKinds e = {ReconcileMicroControllerError} \<longrightarrow>
      Statuses (setResourceGroupStatus st topo (Some e)) =
        (Some ConditionTrue, Some ConditionTrue, Some ConditionFalse) \<and>
      State (setResourceGroupStatus st topo (Some e)) = ''INACTIVE'')"
proof -
  have inactive: "State (setResourceGroupStatus st topo (Some e)) = ''INACTIVE''"
    by (simp add: setResourceGroupStatus_def Let_def)
  show ?thesis
    using status_one_kind [of e _ st topo] by (simp add: inactive)
qed

theorem status_table_witness:
  "(matchedKinds (Error ProcessCRDError ''bad schema'' (Some (Error OtherError ''bad schema'' None)))
      = {ProcessCRDError} \<and>
    Statuses (setResourceGroupStatus \<lparr>State = ''ACTIVE'', TopoligicalOrder = [], Conditions = []\<rparr> [''a'']
      (Some (Error ProcessCRDError ''bad schema'' (Some (Error OtherError ''bad schema'' None))))) =
        (Some ConditionUnknown, Some ConditionFalse, Some ConditionUnknown)) \<and>
   (matchedKinds (Error ReconcileGraphError ''cycle'' None) = {ReconcileGraphError} \<and>
    Statuses (setResourceGroupStatus \<lparr>State = ''ACTIVE'', TopoligicalOrder = [], Conditions = []\<rparr> [''a'']
      (Some (Error ReconcileGraphError ''cycle'' None))) =
        (Some ConditionFalse, Some ConditionUnknown, Some ConditionUnknown)) \<and>
   (matchedKinds (Error RequeueNeeded ''again'' (Some (Error ReconcileCRDError ''conflict'' None)))
      = {ReconcileCRDError} \<and>
    Statuses (setResourceGroupStatus \<lparr>State = ''ACTIVE'', TopoligicalOrder = [], Conditions = []\<rparr> [''a'']
      (Some (Error RequeueNeeded ''again'' (Some (Error ReconcileCRDError ''conflict'' None))))) =
        (Some ConditionTrue, Some ConditionFalse, Some ConditionUnknown)) \<and>
   (matchedKinds (Error ReconcileMicroControllerError ''not ready'' None)
      = {ReconcileMicroControllerError} \<and>
    Statuses (setResourceGroupStatus \<lparr>State = ''ACTIVE'', TopoligicalOrder = [], Conditions = []\<rparr> [''a'']
      (Some (Error ReconcileMicroControllerError ''not ready'' None))) =
        (Some ConditionTrue, Some ConditionTrue, Some ConditionFalse))"
  using
    status_table [of "Error ProcessCRDError ''bad schema'' (Some (Error OtherError ''bad schema'' None))"
      "\<lparr>State = ''ACTIVE'', TopoligicalOrder = [], Conditions = []\<rparr>" "[''a'']"]
    status_table [of "Error ReconcileGraphError ''cycle'' None"
      "\<lparr>State = ''ACTIVE'', TopoligicalOrder = [], Conditions = []\<rparr>" "[''a'']"]
    status_table [of "Error RequeueNeeded ''again'' (Some (Error ReconcileCRDError ''conflict'' None))"
      "\<lparr>State = ''ACTIVE'', TopoligicalOrder = [], Conditions = []\<rparr>" "[''a'']"]
    status_table [of "Error ReconcileMicroControllerError ''not ready'' None"
      "\<lparr>State = ''ACTIVE'', TopoligicalOrder = [], Conditions = []\<rparr>" "[''a'']"]
  by (simp add: matchedKinds_def phaseKinds_def)

text \<open>
  C3, as stated, fails. The claim says that on the error path every Reason is a fixed
  token independent of the cause text and every Message is the raw cause text. For a
  SchemaError with text "boom" the GraphVerified condition has a message that is not the
  cause text, and its reason is the cause text behind a prefix: it changes when the text
  changes to "bang".
\<close>

theorem reason_message_counterexample:
  "MessageOf (setResourceGroupStatus \<lparr>State = ''ACTIVE'', TopoligicalOrder = [], Conditions = []\<rparr> []
       (Some (Error ProcessCRDError ''boom'' None))) GraphVerified
     \<noteq> Some (Error_text (Error ProcessCRDError ''boom'' None)) \<and>
   ReasonOf (setResourceGroupStatus \<lparr>State = ''ACTIVE'', TopoligicalOrder = [], Conditions = []\<rparr> []
       (Some (Error ProcessCRDError ''boom'' None))) GraphVerified
     = Some ''error parsing schema: boom'' \<and>
   ReasonOf (setResourceGroupStatus \<lparr>State = ''ACTIVE'', TopoligicalOrder = [], Conditions = []\<rparr> []
       (Some (Error ProcessCRDError ''bang'' None))) GraphVerified
     = Some ''error parsing schema: bang''"
  by (simp add: setResourceGroupStatus_def MessageOf_def ReasonOf_def errors_As_def on_defs
      GetCondition_def New_defs Let_def)

text \<open>
  C3, amended. For a reconcile error that matches exactly one phase-error kind, every
  condition written on the error path has as Message the fixed description of its
  condition type, whatever the cause text. The Reason of a condition that is not the
  failing one is a fixed token ("Faulty Graph", "CRD not-synced") or empty; the Reason
  of the failing condition is the text of the error, and for a SchemaError both
  GraphVerified and TypeSynced carry "error parsing schema: " followed by that text.
\<close>

theorem reason_message_table:
  "(matchedKinds e = {ProcessCRDError} \<longrightarrow>
      Texts (setResourceGroupStatus st topo (Some e)) GraphVerified =
        Some (''error parsing schema: '' @ Error_text e, ''Directed Acyclic Graph is synced'') \<and>
      Texts (setResourceGroupStatus st topo (Some e)) CustomResourceDefinitionSynced =
        Some (''error parsing schema: '' @ Error_text e, ''Custom Resource Definition is synced'') \<and>
      Texts (setResourceGroupStatus st topo (Some e)) ReconcilerReady =
        Some (''Faulty Graph'', ''micro controller is ready'')) \<and>
   (matchedKinds e = {ReconcileGraphError} \<longrightarrow>
      Texts (setResourceGroupStatus st topo (Some e)) GraphVerified =
        Some (Error_text e, ''Directed Acyclic Graph is synced'') \<and>
      Texts (setResourceGroupStatus st topo (Some e)) CustomResourceDefinitionSynced =
        Some (''Faulty Graph'', ''Custom Resource Definition is synced'') \<and>
      Texts (setResourceGroupStatus st topo (Some e)) ReconcilerReady =
        Some (''Faulty Graph'', ''micro controller is ready'')) \<and>
   (matchedKinds e = {ReconcileCRDError} \<longrightarrow>
      Texts (setResourceGroupStatus st topo (Some e)) GraphVerified =
        Some ([], ''Directed Acyclic Graph is synced'') \<and>
      Texts (setResourceGroupStatus st topo (Some e)) CustomResourceDefinitionSynced =
        Some (Error_text e, ''Custom Resource Definition is synced'') \<and>
      Texts (setResourceGroupStatus st topo (Some e)) ReconcilerReady =
        Some (''CRD not-synced'', ''micro controller is ready'')) \<and>
   (matchedKinds e = {ReconcileMicroControllerError} \<longrightarrow>
      Texts (setResourceGroupStatus st topo (Some e)) GraphVerified =
        Some ([], ''Directed Acyclic Graph is synced'') \<and>
      Texts (setResourceGroupStatus st topo (Some e)) CustomResourceDefinitionSynced =
        Some ([], ''Custom Resource Definition is synced'') \<and>
      Texts (setResourceGroupStatus st topo (Some e)) ReconcilerReady =
        Some (Error_text e, ''micro controller is ready''))"
proof -
  have "matchedKinds e = {k} \<Longrightarrow> k \<in> phaseKinds \<Longrightarrow>
    Texts (setResourceGroupStatus st topo (Some e)) t =
     (if k = ProcessCRDError then
        (if t = ReconcilerReady then Some (''Faulty Graph'', ''micro controller is ready'')
         else if t = GraphVerified then Some (''error parsing schema: '' @ Error_text e, ''Directed Acyclic Graph is synced'')
         else Some (''error parsing schema: '' @ Error_text e, ''Custom Resource Definition is synced''))
      else if k = ReconcileGraphError then
        (if t = ReconcilerReady then Some (''Faulty Graph'', ''micro controller is ready'')
         else if t = GraphVerified then Some (Error_text e, ''Directed Acyclic Graph is synced'')
         else Some (''Faulty Graph'', ''Custom Resource Definition is synced''))
      else if k = ReconcileCRDError then
        (if t = ReconcilerReady then Some (''CRD not-synced'', ''micro controller is ready'')
         else if t = GraphVerified then Some ([], ''Directed Acyclic Graph is synced'')
         else Some (Error_text e, ''Custom Resource Definition is synced''))
      else
        (if t = ReconcilerReady then Some (Error_text e, ''micro controller is ready'')
         else if t = GraphVerified then Some ([], ''Directed Acyclic Graph is synced'')
         else Some ([], ''Custom Resource Definition is synced'')))" for k t
    by (cases t; cases k)
       (simp_all add: as_kind setResourceGroupStatus_def Texts_def on_defs phaseKinds_def
        GetCondition_SetCondition New_defs Let_def del: not_None_eq)
  then show ?thesis by (simp add: phaseKinds_def)
qed

theorem reason_message_table_witness:
  "matchedKinds (Error ReconcileCRDError ''conflict'' None) = {ReconcileCRDError} \<and>
   Texts (setResourceGroupStatus \<lparr>State = ''ACTIVE'', TopoligicalOrder = [], Conditions = []\<rparr> []
      (Some (Error ReconcileCRDError ''conflict'' None))) CustomResourceDefinitionSynced =
     Some (''conflict'', ''Custom Resource Definition is synced'') \<and>
   Texts (setResourceGroupStatus \<lparr>State = ''ACTIVE'', TopoligicalOrder = [], Conditions = []\<rparr> []
      (Some (Error ReconcileCRDError ''conflict'' None))) ReconcilerReady =
     Some (''CRD not-synced'', ''micro controller is ready'')"
  using reason_message_table [of "Error ReconcileCRDError ''conflict'' None"
      "\<lparr>State = ''ACTIVE'', TopoligicalOrder = [], Conditions = []\<rparr>" "[]"]
  by (simp add: matchedKinds_def phaseKinds_def)

section \<open>The requeue classifier: claims\<close>

text \<open>
  C6. \<open>handleReconcileError\<close> matches the requeue markers in the order After, Now,
  None. An error carrying an After marker yields a result whose RequeueAfter is the
  duration of the marker (the outermost one) and no error; otherwise an error carrying a
  Now marker yields a result with Requeue true and no error; otherwise an error carrying a
  None marker yields the empty result and no error; an error carrying no marker is handed
  back unchanged with the empty result.
\<close>

theorem handleReconcileError_priority:
  "(afterDurations (kinds e) = d # ds \<longrightarrow>
      handleReconcileError (Some e) = (\<lparr>Requeue = False, RequeueAfter = d\<rparr>, None)) \<and>
   (afterDurations (kinds e) = [] \<and> RequeueNeeded \<in> set (kinds e) \<longrightarrow>
      handleReconcileError (Some e) = (\<lparr>Requeue = True, RequeueAfter = 0\<rparr>, None)) \<and>
   (afterDurations (kinds e) = [] \<and> RequeueNeeded \<notin> set (kinds e) \<and> NoRequeue \<in> set (kinds e) \<longrightarrow>
      handleReconcileError (Some e) = (\<lparr>Requeue = False, RequeueAfter = 0\<rparr>, None)) \<and>
   (afterDurations (kinds e) = [] \<and> RequeueNeeded \<notin> set (kinds e) \<and> NoRequeue \<notin> set (kinds e) \<longrightarrow>
      handleReconcileError (Some e) = (\<lparr>Requeue = False, RequeueAfter = 0\<rparr>, Some e))"
proof (intro conjI impI)
  assume "afterDurations (kinds e) = d # ds"
  then obtain m where "As_chain isRequeueNeededAfter e = Some m" "Duration m = d"
    using As_after_Cons by blast
  then show "handleReconcileError (Some e) = (\<lparr>Requeue = False, RequeueAfter = d\<rparr>, None)"
    by (simp add: handleReconcileError_def errors_As_def Result_empty_def)
next
  assume a: "afterDurations (kinds e) = [] \<and> RequeueNeeded \<in> set (kinds e)"
  then have "As_chain (\<lambda>t. t = RequeueNeeded) e \<noteq> None"
    by (simp add: As_kind_chain)
  with a show "handleReconcileError (Some e) = (\<lparr>Requeue = True, RequeueAfter = 0\<rparr>, None)"
    by (auto simp: handleReconcileError_def errors_As_def Result_empty_def As_after_Nil)
next
  assume a: "afterDurations (kinds e) = [] \<and> RequeueNeeded \<notin> set (kinds e) \<and> NoRequeue \<in> set (kinds e)"
  then have "As_chain (\<lambda>t. t = NoRequeue) e \<noteq> None" "As_chain (\<lambda>t. t = RequeueNeeded) e = None"
    by (simp_all add: As_kind_chain)
  with a show "handleReconcileError (Some e) = (\<lparr>Requeue = False, RequeueAfter = 0\<rparr>, None)"
    by (auto simp: handleReconcileError_def errors_As_def Result_empty_def As_after_Nil)
next
  assume a: "afterDurations (kinds e) = [] \<and> RequeueNeeded \<notin> set (kinds e) \<and> NoRequeue \<notin> set (kinds e)"
  then have "As_chain (\<lambda>t. t = NoRequeue) e = None" "As_chain (\<lambda>t. t = RequeueNeeded) e = None"
    by (simp_all add: As_kind_chain)
  with a show "handleReconcileError (Some e) = (\<lparr>Requeue = False, RequeueAfter = 0\<rparr>, Some e)"
    by (auto simp: handleReconcileError_def errors_As_def Result_empty_def As_after_Nil)
qed

theorem handleReconcileError_priority_witness:
  "(afterDurations (kinds (Error RequeueNeeded ''now''
        (Some (Error (RequeueNeededAfter 5) ''later'' (Some (Error NoRequeue ''stop'' None)))))) = [5] \<and>
    handleReconcileError (Some (Error RequeueNeeded ''now''
        (Some (Error (RequeueNeededAfter 5) ''later'' (Some (Error NoRequeue ''stop'' None))))))
      = (\<lparr>Requeue = False, RequeueAfter = 5\<rparr>, None)) \<and>
   (afterDurations (kinds (Error NoRequeue ''stop'' (Some (Error RequeueNeeded ''now'' None)))) = [] \<and>
    RequeueNeeded \<in> set (kinds (Error NoRequeue ''stop'' (Some (Error RequeueNeeded ''now'' None)))) \<and>
    handleReconcileError (Some (Error NoRequeue ''stop'' (Some (Error RequeueNeeded ''now'' None))))
      = (\<lparr>Requeue = True, RequeueAfter = 0\<rparr>, None)) \<and>
   (NoRequeue \<in> set (kinds (Error NoRequeue ''stop'' (Some (Error ReconcileGraphError ''cycle'' None)))) \<and>
    handleReconcileError (Some (Error NoRequeue ''stop'' (Some (Error ReconcileGraphError ''cycle'' None))))
      = (\<lparr>Requeue = False, RequeueAfter = 0\<rparr>, None)) \<and>
   (NoRequeue \<notin> set (kinds (Error ReconcileGraphError ''cycle'' None)) \<and>
    handleReconcileError (Some (Error ReconcileGraphError ''cycle'' None))
      = (\<lparr>Requeue = False, RequeueAfter = 0\<rparr>, Some (Error ReconcileGraphError ''cycle'' None)))"
  using
    handleReconcileError_priority [of "Error RequeueNeeded ''now''
        (Some (Error (RequeueNeededAfter 5) ''later'' (Some (Error NoRequeue ''stop'' None))))" 5 "[]"]
    handleReconcileError_priority [of "Error NoRequeue ''stop'' (Some (Error RequeueNeeded ''now'' None))"]
    handleReconcileError_priority [of "Error NoRequeue ''stop'' (Some (Error ReconcileGraphError ''cycle'' None))"]
    handleReconcileError_priority [of "Error ReconcileGraphError ''cycle'' None"]
  by (simp add: kinds_def)

text \<open>
  C10. Called with a nil error, \<open>handleReconcileError\<close> returns the empty result and a
  nil error: neither a requeue nor a requeue-after delay is requested.
\<close>

theorem handleReconcileError_nil:
  "handleReconcileError None = (\<lparr>Requeue = False, RequeueAfter = 0\<rparr>, None)"
  by (simp add: handleReconcileError_def errors_As_def Result_empty_def)

section \<open>Properties of the walk\<close>

lemmas walk_defs = ParseResource_def parseResource.simps resolveOneOf_def expectedTypeOf_def
  allowsAdditional_def getFieldSchema_def writeBack_def writeBackItems_def arrayItemSchema_def
  itemsSchema_def setItemsSchema_def setProperties_def setType_def setAdditionalSchema_def
  stringLeaf_def scalarLeaf_def isOneShotExpression_def extractExpressions_def TrimSpace_def
  isSpace_def Trim_def Let_def

lemma stringLeaf_wellFormed:
  "stringLeaf field s t path = Inr fs \<Longrightarrow> f \<in> set fs \<Longrightarrow> wellFormed f"
proof (cases "isOneShotExpression field")
  case (Inl err)
  then show "stringLeaf field s t path = Inr fs \<Longrightarrow> f \<in> set fs \<Longrightarrow> wellFormed f"
    by (simp add: stringLeaf_def)
next
  case one: (Inr ok)
  show "stringLeaf field s t path = Inr fs \<Longrightarrow> f \<in> set fs \<Longrightarrow> wellFormed f"
  proof (cases "extractExpressions field")
    case (Inl err)
    with one show "stringLeaf field s t path = Inr fs \<Longrightarrow> f \<in> set fs \<Longrightarrow> wellFormed f"
      by (cases ok) (auto simp: stringLeaf_def wellFormed_def split: if_splits)
  next
    case (Inr expressions)
    with one show "stringLeaf field s t path = Inr fs \<Longrightarrow> f \<in> set fs \<Longrightarrow> wellFormed f"
      by (cases ok; cases expressions) (auto simp: stringLeaf_def wellFormed_def split: if_splits)
  qed
qed

lemma scalarLeaf_empty: "scalarLeaf v t path = Inr fs \<Longrightarrow> fs = []"
  by (auto simp: scalarLeaf_def split: if_splits val.splits)

lemma walk_wellFormed:
  "(\<forall>fs. fst (parseResource resource schema0 path) = Inr fs \<longrightarrow> (\<forall>f \<in> set fs. wellFormed f))"
  "(\<forall>f \<in> set acc. wellFormed f) \<longrightarrow>
     (\<forall>fs. fst (parseFields kvs schema path' acc) = Inr fs \<longrightarrow> (\<forall>f \<in> set fs. wellFormed f))"
  "(\<forall>f \<in> set acc'. wellFormed f) \<longrightarrow>
     (\<forall>fs. fst (parseItems items i itemSchema path'' acc') = Inr fs \<longrightarrow> (\<forall>f \<in> set fs. wellFormed f))"
proof (induction resource schema0 path and kvs schema path' acc and items i itemSchema path'' acc'
       rule: parseResource_parseFields_parseItems.induct)
  case (1 resource schema0 path)
  show ?case
  proof (intro allI impI)
    fix fs assume r: "fst (parseResource resource schema0 path) = Inr fs"
    then obtain schema where s: "resolveOneOf schema0 = Inr schema"
      by (cases "resolveOneOf schema0") (auto simp: parseResource.simps)
    show "\<forall>f \<in> set fs. wellFormed f"
    proof (cases resource)
      case (VMap field)
      with r s have ok: "\<not> (expectedTypeOf schema \<noteq> ''object'' \<and> \<not> allowsAdditional schema)"
        and "fst (parseFields field schema path []) = Inr fs"
        by (auto simp: parseResource.simps Let_def split: if_splits)
      with "1.IH"(1)[OF s refl VMap ok] show ?thesis by simp
    next
      case (VSlice field)
      with r s obtain found where a: "\<not> expectedTypeOf schema \<noteq> ''array''"
        and f: "arrayItemSchema schema path = Inr found"
        and "fst (parseItems field 0 (snd found) path []) = Inr fs"
        by (auto simp: parseResource.simps Let_def split: if_splits sum.splits)
      with "1.IH"(2)[OF s refl VSlice a f] show ?thesis by simp
    next
      case (VString field)
      with r s show ?thesis
        by (auto simp: parseResource.simps Let_def dest: stringLeaf_wellFormed)
    qed (use r s in \<open>auto simp: parseResource.simps Let_def dest: scalarLeaf_empty\<close>)
  qed
next
  case (2 schema path expressionsFields)
  then show ?case by simp
next
  case (3 field "value" rest schema path expressionsFields)
  show ?case
  proof (intro impI allI)
    fix fs
    assume acc: "\<forall>f \<in> set expressionsFields. wellFormed f"
      and r: "fst (parseFields ((field, value) # rest) schema path expressionsFields) = Inr fs"
    from r obtain found where g: "getFieldSchema schema field = Inr found"
      by (cases "getFieldSchema schema field") auto
    define res where "res = parseResource value (snd found) (path @ ''.'' @ field)"
    from r g obtain fe where fe: "fst res = Inr fe"
      by (cases "fst res") (auto simp: res_def Let_def)
    from "3.IH"(1)[OF g] fe have "\<forall>f \<in> set fe. wellFormed f"
      by (simp add: res_def)
    with acc have acc': "\<forall>f \<in> set (expressionsFields @ fe). wellFormed f" by auto
    from r g fe have "fst (parseFields rest (writeBack schema field (fst found) (snd found) (snd res))
        path (expressionsFields @ fe)) = Inr fs"
      by (simp add: res_def Let_def)
    with "3.IH"(2)[OF g res_def refl fe] acc' show "\<forall>f \<in> set fs. wellFormed f"
      by simp
  qed
next
  case (4 i itemSchema path expressionsFields)
  then show ?case by simp
next
  case (5 item rest i itemSchema path expressionsFields)
  show ?case
  proof (intro impI allI)
    fix fs
    assume acc: "\<forall>f \<in> set expressionsFields. wellFormed f"
      and r: "fst (parseItems (item # rest) i itemSchema path expressionsFields) = Inr fs"
    define res where "res = parseResource item itemSchema (path @ ''['' @ itoa i @ '']'')"
    from r obtain ie where ie: "fst res = Inr ie"
      by (cases "fst res") (auto simp: res_def Let_def)
    from "5.IH"(1) ie have "\<forall>f \<in> set ie. wellFormed f"
      by (simp add: res_def)
    with acc have acc': "\<forall>f \<in> set (expressionsFields @ ie). wellFormed f" by auto
    from r ie have "fst (parseItems rest (Suc i) (snd res) path (expressionsFields @ ie)) = Inr fs"
      by (simp add: res_def Let_def)
    with "5.IH"(2)[OF res_def ie] acc' show "\<forall>f \<in> set fs. wellFormed f"
      by simp
  qed
qed

text \<open>
  Without an items schema the array case fails whatever the parent declares: the second
  branch is never taken.
\<close>

lemma arrayItemSchema_absent:
  "itemsSchema s = None \<Longrightarrow> arrayItemSchema s path = Inl (InvalidArraySchema path)"
  by (simp add: arrayItemSchema_def)

text \<open>
  The assignment in the \<open>oneOf\<close> branch is the only write: a schema whose nodes never
  take that branch is handed back as it was.
\<close>

lemma singleTyped_sel:
  "singleTyped s \<Longrightarrow> length (Type s) = 1 \<or> OneOf s = []"
  "singleTyped s \<Longrightarrow> map_of (Properties s) k = Some c \<Longrightarrow> singleTyped c"
  "singleTyped s \<Longrightarrow> itemsSchema s = Some i \<Longrightarrow> singleTyped i"
  "singleTyped s \<Longrightarrow> AdditionalProperties s = Some ap \<Longrightarrow> SchemaOrBool_Schema ap = Some a
     \<Longrightarrow> singleTyped a"
proof -
  show "singleTyped s \<Longrightarrow> length (Type s) = 1 \<or> OneOf s = []"
    by (cases s) auto
  show "singleTyped s \<Longrightarrow> map_of (Properties s) k = Some c \<Longrightarrow> singleTyped c"
    by (cases s) (auto dest!: map_of_SomeD intro: rev_image_eqI)
  show "singleTyped s \<Longrightarrow> itemsSchema s = Some i \<Longrightarrow> singleTyped i"
    by (cases s) (auto simp: itemsSchema_def split: option.splits schemaOrArray.splits)
  show "singleTyped s \<Longrightarrow> AdditionalProperties s = Some ap \<Longrightarrow> SchemaOrBool_Schema ap = Some a
     \<Longrightarrow> singleTyped a"
    by (cases s; cases ap) auto
qed

lemma resolveOneOf_singleTyped:
  "singleTyped s \<Longrightarrow> resolveOneOf s = Inr s' \<Longrightarrow> s' = s"
  using singleTyped_sel(1)[of s] by (auto simp: resolveOneOf_def split: if_splits)

lemma setProperty_same: "map_of ps k = Some v \<Longrightarrow> setProperty k v ps = ps"
  by (induction ps) (auto split: if_splits)

lemma schemaOrBool_rebuild:
  "SchemaOrBool_Schema ap = Some a \<Longrightarrow> SchemaOrBool (Allows ap) (Some a) = ap"
  by (cases ap) simp

lemma writeBack_same:
  "getFieldSchema s field = Inr found \<Longrightarrow> writeBack s field (fst found) (snd found) (snd found) = s"
  by (cases s)
     (auto simp: getFieldSchema_def writeBack_def setProperties_def setType_def
        setAdditionalSchema_def setProperty_same schemaOrBool_rebuild
      split: option.splits if_splits)

lemma getFieldSchema_singleTyped:
  "singleTyped s \<Longrightarrow> getFieldSchema s field = Inr found \<Longrightarrow> singleTyped (snd found)"
  by (auto simp: getFieldSchema_def split: option.splits if_splits
      dest: singleTyped_sel(2) singleTyped_sel(4))

lemma arrayItemSchema_singleTyped:
  "singleTyped s \<Longrightarrow> arrayItemSchema s path = Inr found \<Longrightarrow>
     singleTyped (snd found) \<and> writeBackItems s (fst found) (snd found) = s"
  by (cases s)
     (auto simp: arrayItemSchema_def writeBackItems_def setItemsSchema_def itemsSchema_def
        split: if_splits option.splits schemaOrArray.splits)

lemma walk_frame:
  "singleTyped schema0 \<longrightarrow> snd (parseResource resource schema0 path) = schema0"
  "singleTyped schema \<longrightarrow> snd (parseFields kvs schema path' acc) = schema"
  "singleTyped itemSchema \<longrightarrow> snd (parseItems items i itemSchema path'' acc') = itemSchema"
proof (induction resource schema0 path and kvs schema path' acc and items i itemSchema path'' acc'
       rule: parseResource_parseFields_parseItems.induct)
  case (1 resource schema0 path)
  show ?case
  proof
    assume st: "singleTyped schema0"
    show "snd (parseResource resource schema0 path) = schema0"
    proof (cases "resolveOneOf schema0")
      case (Inl err)
      then show ?thesis by (simp add: parseResource.simps)
    next
      case (Inr schema)
      with st have eq: "schema = schema0" by (rule resolveOneOf_singleTyped)
      show ?thesis
      proof (cases resource)
        case (VMap field)
        show ?thesis
        proof (cases "expectedTypeOf schema \<noteq> ''object'' \<and> \<not> allowsAdditional schema")
          case True
          with Inr VMap eq show ?thesis by (simp add: parseResource.simps)
        next
          case False
          from "1.IH"(1)[OF Inr refl VMap False] st eq Inr VMap False show ?thesis
            by (simp add: parseResource.simps)
        qed
      next
        case (VSlice field)
        show ?thesis
        proof (cases "expectedTypeOf schema \<noteq> ''array''")
          case True
          with Inr VSlice eq show ?thesis by (simp add: parseResource.simps)
        next
          case a: False
          show ?thesis
          proof (cases "arrayItemSchema schema path")
            case (Inl err)
            with Inr VSlice eq a show ?thesis by (simp add: parseResource.simps)
          next
            case found: (Inr found)
            from arrayItemSchema_singleTyped[OF _ found] st eq
            have "singleTyped (snd found)" "writeBackItems schema (fst found) (snd found) = schema"
              by simp_all
            with "1.IH"(2)[OF Inr refl VSlice a found] Inr VSlice eq a found show ?thesis
              by (simp add: parseResource.simps Let_def)
          qed
        qed
      qed (use Inr eq in \<open>simp_all add: parseResource.simps\<close>)
    qed
  qed
next
  case (2 schema path expressionsFields)
  then show ?case by simp
next
  case (3 field "value" rest schema path expressionsFields)
  show ?case
  proof
    assume st: "singleTyped schema"
    show "snd (parseFields ((field, value) # rest) schema path expressionsFields) = schema"
    proof (cases "getFieldSchema schema field")
      case (Inl err)
      then show ?thesis by simp
    next
      case (Inr found)
      define res where "res = parseResource value (snd found) (path @ ''.'' @ field)"
      from getFieldSchema_singleTyped[OF st Inr] "3.IH"(1)[OF Inr]
      have same: "snd res = snd found" by (simp add: res_def)
      then have wb: "writeBack schema field (fst found) (snd found) (snd res) = schema"
        using writeBack_same[OF Inr] by simp
      show ?thesis
      proof (cases "fst res")
        case (Inl err)
        with Inr wb show ?thesis by (simp add: res_def Let_def)
      next
        case fe: (Inr fe)
        from "3.IH"(2)[OF Inr res_def refl fe] st wb Inr fe show ?thesis
          by (simp add: res_def Let_def)
      qed
    qed
  qed
next
  case (4 i itemSchema path expressionsFields)
  then show ?case by simp
next
  case (5 item rest i itemSchema path expressionsFields)
  show ?case
  proof
    assume st: "singleTyped itemSchema"
    define res where "res = parseResource item itemSchema (path @ ''['' @ itoa i @ '']'')"
    from "5.IH"(1) st have same: "snd res = itemSchema" by (simp add: res_def)
    show "snd (parseItems (item # rest) i itemSchema path expressionsFields) = itemSchema"
    proof (cases "fst res")
      case (Inl err)
      with same show ?thesis by (simp add: res_def Let_def)
    next
      case ie: (Inr ie)
      from "5.IH"(2)[OF res_def ie] st same ie show ?thesis
        by (simp add: res_def Let_def)
    qed
  qed
qed

section \<open>The schema walk: claims\<close>

text \<open>
  C8. Every expression field returned by \<open>ParseResource\<close> satisfies the invariant: a
  one-shot field has exactly one expression, and a field that is not one-shot has at least
  one.
\<close>

theorem ParseResource_invariant:
  assumes "fst (ParseResource resource resourceSchema) = Inr result" and "f \<in> set result"
  shows "(OneShotCEL f \<longrightarrow> length (Expressions f) = 1) \<and>
         (\<not> OneShotCEL f \<longrightarrow> 1 \<le> length (Expressions f))"
proof -
  from assms(1) obtain s where "resourceSchema = Some s"
    and "fst (parseResource (VMap resource) s '''') = Inr result"
    by (auto simp: ParseResource_def split: option.splits prod.splits)
  with walk_wellFormed(1) assms(2) have "wellFormed f" by blast
  then show ?thesis by (simp add: wellFormed_def)
qed

theorem ParseResource_invariant_witness:
  "fst (ParseResource [(''a'', VSlice [VString ''${x}'', VString ''hi-${y}-${z}''])]
      (Some (Schema [''object'']
         [(''a'', Schema [''array''] []
             (Some (SchemaOrArray (Some (Schema [''string''] [] None None [])) [])) None [])]
         None None []))) =
     Inr [\<lparr>Path = ''.a[0]'', Expressions = [''x''], ExpectedType = ''string'',
            ExpectedSchema = Some (Schema [''string''] [] None None []), OneShotCEL = True\<rparr>,
          \<lparr>Path = ''.a[1]'', Expressions = [''y'', ''z''], ExpectedType = ''string'',
            ExpectedSchema = None, OneShotCEL = False\<rparr>] \<and>
   length (Expressions \<lparr>Path = ''.a[0]'', Expressions = [''x''], ExpectedType = ''string'',
            ExpectedSchema = Some (Schema [''string''] [] None None []), OneShotCEL = True\<rparr>) = 1 \<and>
   1 \<le> length (Expressions \<lparr>Path = ''.a[1]'', Expressions = [''y'', ''z''], ExpectedType = ''string'',
            ExpectedSchema = None, OneShotCEL = False\<rparr>)"
proof -
  have ev: "fst (ParseResource [(''a'', VSlice [VString ''${x}'', VString ''hi-${y}-${z}''])]
      (Some (Schema [''object'']
         [(''a'', Schema [''array''] []
             (Some (SchemaOrArray (Some (Schema [''string''] [] None None [])) [])) None [])]
         None None []))) =
     Inr [\<lparr>Path = ''.a[0]'', Expressions = [''x''], ExpectedType = ''string'',
            ExpectedSchema = Some (Schema [''string''] [] None None []), OneShotCEL = True\<rparr>,
          \<lparr>Path = ''.a[1]'', Expressions = [''y'', ''z''], ExpectedType = ''string'',
            ExpectedSchema = None, OneShotCEL = False\<rparr>]"
    by (simp add: walk_defs itoa.simps)
  show ?thesis
    using ev
      ParseResource_invariant [OF ev, of "\<lparr>Path = ''.a[0]'', Expressions = [''x''], ExpectedType = ''string'',
            ExpectedSchema = Some (Schema [''string''] [] None None []), OneShotCEL = True\<rparr>"]
      ParseResource_invariant [OF ev, of "\<lparr>Path = ''.a[1]'', Expressions = [''y'', ''z''], ExpectedType = ''string'',
            ExpectedSchema = None, OneShotCEL = False\<rparr>"]
    by simp
qed

text \<open>
  C2. The claim says that an array node whose schema has no items schema falls back to an
  object schema synthesized from the declared properties of the parent, and fails only when
  neither is available. The source tests for the fallback with the condition of the first
  branch again, so the fallback is never taken: the array \<open>[{"a": 1}]\<close> under a schema
  of type array that has no items and declares the property \<open>a\<close> is rejected with the
  invalid-array-schema error.
\<close>

theorem array_fallback_unreachable:
  "parseResource (VSlice [VMap [(''a'', VInt 1)]])
     (Schema [''array''] [(''a'', Schema [''integer''] [] None None [])] None None []) ''''
   = (Inl (InvalidArraySchema ''''),
      Schema [''array''] [(''a'', Schema [''integer''] [] None None [])] None None [])"
  by (simp add: walk_defs)

text \<open>
  C4. The claim says that the string leaf \<open>${a{b}}\<close> yields a one-shot field whose inner
  text is \<open>a{b}\<close>. The walk emits a one-shot field, but it strips the delimiters with
  \<open>strings.Trim(field, "${}")\<close>, which removes every trailing brace: the expression
  recorded is \<open>a{b\<close>.
\<close>

theorem nested_brace_truncated:
  "parseResource (VString ''${a{b}}'') (Schema [''string''] [] None None []) ''''
   = (Inr [\<lparr>Path = '''', Expressions = [''a{b''], ExpectedType = ''string'',
             ExpectedSchema = Some (Schema [''string''] [] None None []), OneShotCEL = True\<rparr>],
      Schema [''string''] [] None None [])"
  by (simp add: walk_defs)

text \<open>
  C7. The claim says that the walk leaves every node of the schema of its caller unchanged,
  also when a node declares a \<open>oneOf\<close> union. For the empty document under a schema
  that declares no type and the single alternative of type object, the walk succeeds and
  the schema of the caller has the type object afterwards.
\<close>

theorem oneOf_overwrites_schema_type:
  "ParseResource [] (Some (Schema [] [] None None [Schema [''object''] [] None None []]))
   = (Inr [], Some (Schema [''object''] [] None None [Schema [''object''] [] None None []]))"
  by (simp add: walk_defs)


end
